theory Spec2Isabelle
  imports Complex_Main
begin

section \<open>Encrypted local storage (ApiService)\<close>

text \<open>
  The browser's \<open>localStorage\<close> is a map from keys to strings; \<open>getItem\<close> of a key that was
  never written is \<open>null\<close>, which is \<open>None\<close> here.
\<close>

type_synonym storage = "string \<rightharpoonup> string"

text \<open>
  The errors a JavaScript call of this program can throw. \<open>MalformedData\<close> is what the AES
  library throws when the bytes it decrypted are not a UTF-8 string; \<open>TypeError\<close> is a
  property read on \<open>undefined\<close>.
\<close>

datatype js_error = MalformedData | TypeError

text \<open>
  The AES library is not part of the program. Its two calls are parameters of the model:
  \<^item> \<open>encrypt value\<close> is \<open>CryptoJS.AES.encrypt(value, ENCRYPTION_KEY).toString()\<close>;
  \<^item> \<open>decrypt c\<close> is \<open>CryptoJS.AES.decrypt(c, ENCRYPTION_KEY).toString(CryptoJS.enc.Utf8)\<close>,
    which returns a string (\<open>Inr\<close>) or throws (\<open>Inl\<close>). The string is the plaintext for
    a ciphertext of this key; for any other text the library may throw, or return the empty
    string or garbage.
  The key is the program's constant \<open>ENCRYPTION_KEY\<close>; the salt the library draws for each
  encryption is not observed by any function of the program and is left out.
\<close>

type_synonym encryptor = "string \<Rightarrow> string"
type_synonym decryptor = "string \<Rightarrow> js_error + string"

definition encryptAndSaveToStorage :: "encryptor \<Rightarrow> string \<Rightarrow> string \<Rightarrow> storage \<Rightarrow> storage" where
  "encryptAndSaveToStorage encrypt key val st =
     (let encryptedValue = encrypt val in st(key \<mapsto> encryptedValue))"

text \<open>
  \<open>getFromStorageAndDecrypt\<close> returns \<open>null\<close> (\<open>None\<close>) or a string. \<open>!encryptedValue\<close>
  holds of \<open>null\<close> and of the empty string; the \<open>catch\<close> turns every thrown error into
  \<open>null\<close>.
\<close>

definition getFromStorageAndDecrypt :: "decryptor \<Rightarrow> storage \<Rightarrow> string \<Rightarrow> string option" where
  "getFromStorageAndDecrypt decrypt st key =
     (case st key of
        None \<Rightarrow> None
      | Some encryptedValue \<Rightarrow>
          if encryptedValue = [] then None
          else (case decrypt encryptedValue of
                  Inl error \<Rightarrow> None
                | Inr plain \<Rightarrow> Some plain))"

definition clearAuth :: "storage \<Rightarrow> storage" where
  "clearAuth st = (st(''token'' := None))(''role'' := None)"

definition logout :: "storage \<Rightarrow> storage" where
  "logout st = clearAuth st"

text \<open>\<open>!!token\<close>: \<open>null\<close> and the empty string are falsy, every other string is truthy.\<close>

fun truthy :: "string option \<Rightarrow> bool" where
  "truthy None = False"
| "truthy (Some s) = (s \<noteq> [])"

definition isAuthenticated :: "decryptor \<Rightarrow> storage \<Rightarrow> bool" where
  "isAuthenticated decrypt st =
     (let token = getFromStorageAndDecrypt decrypt st ''token'' in truthy token)"

definition isAdmin :: "decryptor \<Rightarrow> storage \<Rightarrow> bool" where
  "isAdmin decrypt st =
     (let role = getFromStorageAndDecrypt decrypt st ''role'' in role = Some ''ADMIN'')"

subsection \<open>Login (LoginComponent.handleSubmit)\<close>

text \<open>
  The two writes of the success branch of \<open>handleSubmit\<close>, in the order of the source:
  the token first, then the role.
\<close>

definition login :: "encryptor \<Rightarrow> string \<Rightarrow> string \<Rightarrow> storage \<Rightarrow> storage" where
  "login encrypt token role st =
     encryptAndSaveToStorage encrypt ''role'' role
       (encryptAndSaveToStorage encrypt ''token'' token st)"

text \<open>
  What the server answered to \<open>loginUser\<close>: the request failed (the \<open>catch\<close> branch, which
  only shows a message), or a response with its \<open>status\<close>, \<open>token\<close> and \<open>role\<close>.
\<close>

datatype login_response = RequestFailed | Response int string string

fun handleSubmit :: "encryptor \<Rightarrow> string \<Rightarrow> string \<Rightarrow> login_response \<Rightarrow> storage \<Rightarrow> storage" where
  "handleSubmit encrypt email password response st =
     (if email = [] \<or> password = [] then st
      else (case response of
              RequestFailed \<Rightarrow> st
            | Response status token role \<Rightarrow>
                if status = 200 then login encrypt token role st else st))"

text \<open>The session operations, and a run of them from left to right.\<close>

datatype session_op = Login string string | Logout

fun apply_op :: "encryptor \<Rightarrow> storage \<Rightarrow> session_op \<Rightarrow> storage" where
  "apply_op encrypt st (Login token role) = login encrypt token role st"
| "apply_op encrypt st Logout = logout st"

definition run_ops :: "encryptor \<Rightarrow> session_op list \<Rightarrow> storage \<Rightarrow> storage" where
  "run_ops encrypt ops st = foldl (apply_op encrypt) st ops"

text \<open>A login whose token is not the empty string; a logout always qualifies.\<close>

fun nonempty_token :: "session_op \<Rightarrow> bool" where
  "nonempty_token (Login token role) = (token \<noteq> [])"
| "nonempty_token Logout = True"

text \<open>
  A small reversible encoding with the shape of the library's output (a fixed header, the
  payload, a fixed ending), to run the model on concrete inputs. It returns what was
  encoded when the header and the ending are there; for any other text it returns the empty
  string without throwing, as the library does for a short text that is not a ciphertext.
\<close>

definition demo_encrypt :: encryptor where
  "demo_encrypt val = ''U2FsdGVkX1'' @ rev val @ ''==''"

definition demo_decrypt :: decryptor where
  "demo_decrypt c =
     (if 12 \<le> length c \<and> take 10 c = ''U2FsdGVkX1'' \<and> drop (length c - 2) c = ''==''
      then Inr (rev (take (length c - 12) (drop 10 c)))
      else Inr [])"

subsection \<open>Route guard (GuardService)\<close>

text \<open>
  \<open>router.navigate(commands, {queryParams})\<close> is the one effect of the guard; the model
  returns it beside the boolean.
\<close>

datatype navigation = Navigate "string list" "(string \<times> string) list"

text \<open>
  \<open>route.data['requiresAdmin'] || false\<close>: the flag of the route's configuration is
  \<open>true\<close>, \<open>false\<close> or not there (\<open>None\<close>).
\<close>

fun or_false :: "bool option \<Rightarrow> bool" where
  "or_false None = False"
| "or_false (Some b) = b"

definition canActivate :: "decryptor \<Rightarrow> storage \<Rightarrow> bool option \<Rightarrow> string \<Rightarrow> bool \<times> navigation option" where
  "canActivate decrypt st routeData url =
     (let requiresAdmin = or_false routeData in
      if requiresAdmin then
        (if isAdmin decrypt st then (True, None)
         else (False, Some (Navigate [''/login''] [(''returnUrl'', url)])))
      else
        (if isAuthenticated decrypt st then (True, None)
         else (False, Some (Navigate [''/login''] [(''returnUrl'', url)]))))"

section \<open>Client-side pagination\<close>

text \<open>
  A JavaScript number as the pagination code can produce it: an integer, or what a division
  by zero gives.
\<close>

datatype number = Finite int | PosInfinity | NaN

text \<open>
  \<open>Math.ceil(n / d)\<close> for an array length \<open>n\<close> and an integer \<open>d\<close>. A non-zero length
  over zero is \<open>Infinity\<close> and zero over zero is \<open>NaN\<close>; otherwise the quotient is
  rounded up. Array lengths are below \<open>2^32\<close>, where the double nearest to the quotient
  has the ceiling of the exact quotient.
\<close>

definition Math_ceil_div :: "nat \<Rightarrow> int \<Rightarrow> number" where
  "Math_ceil_div n d =
     (if d = 0 then (if n = 0 then NaN else PosInfinity)
      else Finite \<lceil>real n / real_of_int d\<rceil>)"

text \<open>
  \<open>Array.prototype.slice(start, end)\<close>: a negative bound counts from the end of the array,
  both bounds are clamped to the array, and an empty range gives the empty array.
\<close>

definition slice :: "'a list \<Rightarrow> int \<Rightarrow> int \<Rightarrow> 'a list" where
  "slice xs start fin =
     (let len = int (length xs);
          k = (if start < 0 then max (len + start) 0 else min start len);
          final = (if fin < 0 then max (len + fin) 0 else min fin len)
      in take (nat (final - k)) (drop (nat k) xs))"

text \<open>
  What a list request to the API delivers to the subscriber: an error, or a response whose
  list field may be missing (\<open>res.transactions || []\<close>).
\<close>

datatype 'a api_result = Failed | Success "'a list option"

fun or_empty :: "'a list option \<Rightarrow> 'a list" where
  "or_empty None = []"
| "or_empty (Some xs) = xs"

subsection \<open>TransactionComponent\<close>

text \<open>
  The fields of the component that the pagination reads and writes; the message and the
  search fields play no part in it.
\<close>

record 'a transaction_component =
  transactions :: "'a list"
  currentPage :: int
  totalPages :: number
  itemsPerPage :: int

text \<open>
  \<open>loadTransactions\<close> with the answer of the API: the \<open>next\<close> handler sets \<open>totalPages\<close>
  and the page of transactions; the \<open>error\<close> handler only shows a message.
\<close>

definition loadTransactions :: "'a api_result \<Rightarrow> 'a transaction_component \<Rightarrow> 'a transaction_component" where
  "loadTransactions res c =
     (case res of
        Failed \<Rightarrow> c
      | Success payload \<Rightarrow>
          (let ts = or_empty payload in
           c\<lparr>totalPages := Math_ceil_div (length ts) (itemsPerPage c),
             transactions := slice ts ((currentPage c - 1) * itemsPerPage c)
                               (currentPage c * itemsPerPage c)\<rparr>))"

subsection \<open>ProductComponent\<close>

record 'a product_component =
  products :: "'a list"
  productCurrentPage :: int
  productTotalPages :: number
  productItemsPerPage :: int

text \<open>
  \<open>fetchProducts\<close> with the answer of the API. Before anything is assigned, the \<open>next\<close>
  handler runs \<open>console.log(products[0].imageUrl)\<close>: on an empty array \<open>products[0]\<close> is
  \<open>undefined\<close> and the property read throws.
\<close>

definition fetchProducts :: "'a api_result \<Rightarrow> 'a product_component \<Rightarrow> js_error + 'a product_component" where
  "fetchProducts res c =
     (case res of
        Failed \<Rightarrow> Inr c
      | Success payload \<Rightarrow>
          (let ps = or_empty payload in
           if ps = [] then Inl TypeError
           else Inr (c\<lparr>productTotalPages := Math_ceil_div (length ps) (productItemsPerPage c),
                        products := slice ps ((productCurrentPage c - 1) * productItemsPerPage c)
                                     (productCurrentPage c * productItemsPerPage c)\<rparr>)))"

subsection \<open>PaginationComponent\<close>

text \<open>The two inputs of the component, with integral values.\<close>

record pagination_component =
  currentPage_in :: int
  totalPages_in :: int

text \<open>
  \<open>Array.from({ length: totalPages }, (_, i) => i + 1)\<close>: a length below zero counts as
  zero.
\<close>

definition pageNumbers :: "pagination_component \<Rightarrow> int list" where
  "pageNumbers c = map (\<lambda>i. int i + 1) [0..<nat (totalPages_in c)]"

text \<open>\<open>onPageChange\<close> returns the component and what \<open>pageChange\<close> emitted, if anything.\<close>

definition onPageChange :: "int \<Rightarrow> pagination_component \<Rightarrow> pagination_component \<times> int option" where
  "onPageChange page c =
     (if page \<ge> 1 \<and> page \<le> totalPages_in c then (c, Some page) else (c, None))"

section \<open>Dashboard aggregation (DashboardComponent)\<close>

text \<open>
  A transaction record as the aggregation reads it. \<open>totalPrice\<close> is a JavaScript number,
  a double; the type \<open>'n\<close> stands for the doubles, and the arithmetic of the platform on
  them is a parameter of the model:
  \<^item> \<open>add x y\<close> is \<open>x + y\<close> on two numbers, with its rounding;
  \<^item> \<open>zero\<close> is the literal \<open>0\<close>;
  \<^item> \<open>falsy x\<close> holds of the numbers for which \<open>x || 0\<close> is \<open>0\<close>: zero, negative zero
    and \<open>NaN\<close>.
\<close>

record 'n transaction =
  transactionType :: string
  totalPrice :: 'n
  createdAt :: string

text \<open>
  What the local objects \<open>typeCounts\<close>, \<open>amountByType\<close> and \<open>dailyTotals\<close> hold under a
  key: a number, or a string. A string comes up when a number is added to a member the
  object inherits; its characters (the text of the member, then the numbers appended) depend
  on the engine and are not modelled.
\<close>

datatype 'n jsvalue = Num 'n | Str

text \<open>
  The objects are created by \<open>{}\<close>, so they inherit the members of \<open>Object.prototype\<close>.
  The model of an object is the map of its own properties.
\<close>

definition object_prototype_members :: "string list" where
  "object_prototype_members =
     [''constructor'', ''__defineGetter__'', ''__defineSetter__'', ''hasOwnProperty'',
      ''__lookupGetter__'', ''__lookupSetter__'', ''isPrototypeOf'', ''propertyIsEnumerable'',
      ''toString'', ''valueOf'', ''__proto__'', ''toLocaleString'']"

type_synonym 'n object = "string \<rightharpoonup> 'n jsvalue"

text \<open>
  \<open>obj[key]\<close>: the own property, else the inherited member (a function, or the prototype
  itself for \<open>__proto__\<close>), else \<open>undefined\<close>.
\<close>

datatype 'n property = Undefined | Own "'n jsvalue" | Inherited

definition get_property :: "'n object \<Rightarrow> string \<Rightarrow> 'n property" where
  "get_property obj key =
     (case obj key of
        Some v \<Rightarrow> Own v
      | None \<Rightarrow> if key \<in> set object_prototype_members then Inherited else Undefined)"

text \<open>
  \<open>obj[key] = v\<close> for a number or a string \<open>v\<close>: an own property is written, except under
  \<open>__proto__\<close>, whose setter ignores a value that is not an object.
\<close>

definition set_property :: "'n object \<Rightarrow> string \<Rightarrow> 'n jsvalue \<Rightarrow> 'n object" where
  "set_property obj key v = (if key = ''__proto__'' then obj else obj(key \<mapsto> v))"

text \<open>
  \<open>(x || 0) + y\<close> for what a property read gave and a number \<open>y\<close>: \<open>undefined\<close> and a falsy
  number count as \<open>0\<close>; a string and an inherited member are truthy, and adding a number to
  them gives a string.
\<close>

fun or_zero_plus :: "('n \<Rightarrow> 'n \<Rightarrow> 'n) \<Rightarrow> 'n \<Rightarrow> ('n \<Rightarrow> bool) \<Rightarrow> 'n property \<Rightarrow> 'n \<Rightarrow> 'n jsvalue" where
  "or_zero_plus add zero falsy Undefined y = Num (add zero y)"
| "or_zero_plus add zero falsy (Own (Num x)) y = Num (add (if falsy x then zero else x) y)"
| "or_zero_plus add zero falsy (Own Str) y = Str"
| "or_zero_plus add zero falsy Inherited y = Str"

text \<open>The statement \<open>obj[key] = (obj[key] || 0) + y\<close>, which the three reducers share.\<close>

definition add_to_property ::
  "('n \<Rightarrow> 'n \<Rightarrow> 'n) \<Rightarrow> 'n \<Rightarrow> ('n \<Rightarrow> bool) \<Rightarrow> 'n object \<Rightarrow> string \<Rightarrow> 'n \<Rightarrow> 'n object" where
  "add_to_property add zero falsy obj key y =
     set_property obj key (or_zero_plus add zero falsy (get_property obj key) y)"

text \<open>
  The body of the \<open>forEach\<close> of \<open>processChartData\<close> on the two local objects
  \<open>typeCounts\<close> and \<open>amountByType\<close>, and the loop from the two empty objects. The counts
  are whole numbers below \<open>2^53\<close>, on which adding \<open>1\<close> is exact: they are integers here.
\<close>

definition chart_step ::
  "('n \<Rightarrow> 'n \<Rightarrow> 'n) \<Rightarrow> 'n \<Rightarrow> ('n \<Rightarrow> bool) \<Rightarrow> int object \<times> 'n object \<Rightarrow> 'n transaction
     \<Rightarrow> int object \<times> 'n object" where
  "chart_step add zero falsy acc t =
     (let typeCounts = fst acc; amountByType = snd acc; type = transactionType t in
      (add_to_property (+) 0 (\<lambda>n. n = 0) typeCounts type 1,
       add_to_property add zero falsy amountByType type (totalPrice t)))"

definition processChartData ::
  "('n \<Rightarrow> 'n \<Rightarrow> 'n) \<Rightarrow> 'n \<Rightarrow> ('n \<Rightarrow> bool) \<Rightarrow> 'n transaction list \<Rightarrow> int object \<times> 'n object" where
  "processChartData add zero falsy ts = foldl (chart_step add zero falsy) (Map.empty, Map.empty) ts"

text \<open>
  The total that the statement \<open>obj[key] = (obj[key] || 0) + y\<close> builds under one key from
  the numbers \<open>ps\<close> added to it in turn: it starts from \<open>0\<close>, and a total that is falsy counts
  as \<open>0\<close> in the next addition.
\<close>

definition running_total :: "('n \<Rightarrow> 'n \<Rightarrow> 'n) \<Rightarrow> 'n \<Rightarrow> ('n \<Rightarrow> bool) \<Rightarrow> 'n list \<Rightarrow> 'n" where
  "running_total add zero falsy ps =
     foldl (\<lambda>total p. add (if falsy total then zero else total) p) zero ps"

text \<open>
  The sums of the first \<open>k\<close> numbers, added from \<open>0\<close> from left to right, for every \<open>k\<close>;
  and the lists none of whose partial sums is a falsy number other than \<open>0\<close> itself (for
  doubles: none is \<open>NaN\<close> or negative zero).
\<close>

definition partial_sums :: "('n \<Rightarrow> 'n \<Rightarrow> 'n) \<Rightarrow> 'n \<Rightarrow> 'n list \<Rightarrow> 'n list" where
  "partial_sums add zero ps = map (\<lambda>k. foldl add zero (take k ps)) [0..<Suc (length ps)]"

definition no_reset :: "('n \<Rightarrow> 'n \<Rightarrow> 'n) \<Rightarrow> 'n \<Rightarrow> ('n \<Rightarrow> bool) \<Rightarrow> 'n list \<Rightarrow> bool" where
  "no_reset add zero falsy ps = (\<forall>s \<in> set (partial_sums add zero ps). falsy s \<longrightarrow> s = zero)"











section \<open>Properties of the encrypted storage\<close>

lemma get_missing: "st key = None \<Longrightarrow> getFromStorageAndDecrypt decrypt st key = None"
  by (simp add: getFromStorageAndDecrypt_def)

lemma get_thrown:
  "st key = Some c \<Longrightarrow> decrypt c = Inl e \<Longrightarrow> getFromStorageAndDecrypt decrypt st key = None"
  by (simp add: getFromStorageAndDecrypt_def)

lemma get_plain:
  "st key = Some c \<Longrightarrow> c \<noteq> [] \<Longrightarrow> decrypt c = Inr p \<Longrightarrow>
   getFromStorageAndDecrypt decrypt st key = Some p"
  by (simp add: getFromStorageAndDecrypt_def)

lemma get_after_save:
  "encrypt v \<noteq> [] \<Longrightarrow> decrypt (encrypt v) = Inr v \<Longrightarrow>
   getFromStorageAndDecrypt decrypt (encryptAndSaveToStorage encrypt key v st) key = Some v"
  by (simp add: getFromStorageAndDecrypt_def encryptAndSaveToStorage_def)

lemma demo_roundtrip: "demo_encrypt v \<noteq> [] \<and> demo_decrypt (demo_encrypt v) = Inr v"
  by (simp add: demo_encrypt_def demo_decrypt_def)

lemma get_None_iff:
  "getFromStorageAndDecrypt decrypt st key = None \<longleftrightarrow>
     st key = None \<or> st key = Some [] \<or> (\<exists>c e. st key = Some c \<and> decrypt c = Inl e)"
  by (auto simp: getFromStorageAndDecrypt_def split: option.splits sum.splits)

lemma get_Some_iff:
  "getFromStorageAndDecrypt decrypt st key = Some p \<longleftrightarrow>
     (\<exists>c. st key = Some c \<and> c \<noteq> [] \<and> decrypt c = Inr p)"
  by (auto simp: getFromStorageAndDecrypt_def split: option.splits sum.splits)

lemma get_catches: "decrypt c = Inl e \<Longrightarrow> getFromStorageAndDecrypt decrypt [key \<mapsto> c] key = None"
  by (simp add: get_None_iff)

text \<open>
  C4, as the code has it. The claim as stated fails for a corrupted entry on which the
  decryption does not throw: for the entry \<open>tampered\<close> the decryption returns the empty
  string, and \<open>getFromStorageAndDecrypt\<close> returns that string, not \<open>null\<close> as it does once
  the entry is removed.
\<close>

theorem get_corrupt_not_absent_counterexample:
  "getFromStorageAndDecrypt demo_decrypt [''token'' \<mapsto> ''tampered''] ''token'' = Some []
   \<and> getFromStorageAndDecrypt demo_decrypt ([''token'' \<mapsto> ''tampered''](''token'' := None)) ''token''
       = None"
  by (simp add: getFromStorageAndDecrypt_def demo_decrypt_def)

text \<open>
  C4, amended. For every key, \<open>getFromStorageAndDecrypt\<close> returns \<open>null\<close> exactly when the
  key is not there, the entry is the empty string, or the decryption of the entry throws: no
  error leaves it. It returns a string exactly when the entry is there, is not empty and the
  decryption returns that string, be it the plaintext, the empty string or garbage; so a
  corrupted entry is the same as a missing one only when its decryption throws. Right after
  a value was saved with a cipher that decrypts what it encrypted, the value is returned; and
  for a removed key the result is \<open>null\<close>.
\<close>

theorem get_absent_iff:
  "(getFromStorageAndDecrypt decrypt st key = None \<longleftrightarrow>
      st key = None \<or> st key = Some [] \<or> (\<exists>c e. st key = Some c \<and> decrypt c = Inl e))
   \<and> (getFromStorageAndDecrypt decrypt st key = Some p \<longleftrightarrow>
      (\<exists>c. st key = Some c \<and> c \<noteq> [] \<and> decrypt c = Inr p))
   \<and> (encrypt v \<noteq> [] \<and> decrypt (encrypt v) = Inr v \<longrightarrow>
      getFromStorageAndDecrypt decrypt (encryptAndSaveToStorage encrypt key v st) key = Some v)
   \<and> getFromStorageAndDecrypt decrypt (st(key := None)) key = None"
  using get_None_iff [of decrypt st key] get_Some_iff [of decrypt st key p]
    get_after_save [of encrypt v decrypt key st] get_missing [of "st(key := None)" key decrypt]
  by simp

theorem get_absent_iff_witness:
  "demo_encrypt ''abc'' \<noteq> [] \<and> demo_decrypt (demo_encrypt ''abc'') = Inr ''abc''
   \<and> getFromStorageAndDecrypt demo_decrypt
        (encryptAndSaveToStorage demo_encrypt ''token'' ''abc'' Map.empty) ''token'' = Some ''abc''
   \<and> getFromStorageAndDecrypt demo_decrypt [''role'' \<mapsto> demo_encrypt ''USER''] ''token'' = None
   \<and> getFromStorageAndDecrypt demo_decrypt [''token'' \<mapsto> []] ''token'' = None
   \<and> getFromStorageAndDecrypt demo_decrypt [''token'' \<mapsto> ''tampered''] ''token'' \<noteq> None"
  using demo_roundtrip [of "''abc''"]
    get_absent_iff [of demo_decrypt "[''role'' \<mapsto> demo_encrypt ''USER'']" "''token''" "''abc''"
      demo_encrypt "''abc''"]
    get_absent_iff [of demo_decrypt "[''token'' \<mapsto> []]" "''token''" "''abc''"
      demo_encrypt "''abc''"]
    get_absent_iff [of demo_decrypt "[''token'' \<mapsto> ''tampered'']" "''token''" "''abc''"
      demo_encrypt "''abc''"]
    get_absent_iff [of demo_decrypt Map.empty "''token''" "''abc''"
      demo_encrypt "''abc''"]
  by (simp add: demo_decrypt_def)

section \<open>Properties of the session state\<close>

lemma login_entries:
  "login encrypt t r st ''token'' = Some (encrypt t)"
  "login encrypt t r st ''role'' = Some (encrypt r)"
  by (simp_all add: login_def encryptAndSaveToStorage_def)

lemma handleSubmit_success:
  "email \<noteq> [] \<Longrightarrow> password \<noteq> [] \<Longrightarrow>
   handleSubmit encrypt email password (Response 200 token role) st = login encrypt token role st"
  by simp

lemma handleSubmit_no_login:
  "status \<noteq> 200 \<Longrightarrow> handleSubmit encrypt email password (Response status token role) st = st"
  "handleSubmit encrypt email password RequestFailed st = st"
  by simp_all

lemma logout_entries: "logout st ''token'' = None" "logout st ''role'' = None"
  by (simp_all add: logout_def clearAuth_def)

lemma isAuthenticated_iff:
  "isAuthenticated decrypt st \<longleftrightarrow>
     (\<exists>c p. st ''token'' = Some c \<and> c \<noteq> [] \<and> decrypt c = Inr p \<and> p \<noteq> [])"
  by (auto simp: isAuthenticated_def getFromStorageAndDecrypt_def
      split: option.splits sum.splits)

lemma isAdmin_iff:
  "isAdmin decrypt st \<longleftrightarrow>
     (\<exists>c. st ''role'' = Some c \<and> c \<noteq> [] \<and> decrypt c = Inr ''ADMIN'')"
  by (auto simp: isAdmin_def getFromStorageAndDecrypt_def split: option.splits sum.splits)

lemma isAuthenticated_login:
  "encrypt t \<noteq> [] \<Longrightarrow> decrypt (encrypt t) = Inr t \<Longrightarrow>
   isAuthenticated decrypt (login encrypt t r st) \<longleftrightarrow> t \<noteq> []"
  by (simp add: isAuthenticated_iff login_entries)

lemma isAdmin_login:
  "encrypt r \<noteq> [] \<Longrightarrow> decrypt (encrypt r) = Inr r \<Longrightarrow>
   isAdmin decrypt (login encrypt t r st) \<longleftrightarrow> r = ''ADMIN''"
  by (auto simp: isAdmin_iff login_entries)

lemma not_isAuthenticated_logout: "\<not> isAuthenticated decrypt (logout st)"
  by (simp add: isAuthenticated_iff logout_entries)

lemma not_isAdmin_logout: "\<not> isAdmin decrypt (logout st)"
  by (simp add: isAdmin_iff logout_entries)

text \<open>
  C2. \<open>isAdmin\<close> holds exactly when the \<open>role\<close> entry is there, is not empty and decrypts
  to the string \<open>ADMIN\<close>. With no role entry it is false; with an entry that decrypts to
  any other string (\<open>admin\<close> in lower case, the empty string) it is false; and after a login
  with a cipher that decrypts what it encrypted, it holds exactly when the role written was
  \<open>ADMIN\<close>.
\<close>

theorem isAdmin_exact_match:
  "(isAdmin decrypt st \<longleftrightarrow>
      (\<exists>c. st ''role'' = Some c \<and> c \<noteq> [] \<and> decrypt c = Inr ''ADMIN''))
   \<and> (st ''role'' = None \<longrightarrow> \<not> isAdmin decrypt st)
   \<and> (st ''role'' = Some c \<and> decrypt c = Inr r \<and> r \<noteq> ''ADMIN'' \<longrightarrow> \<not> isAdmin decrypt st)
   \<and> (encrypt r \<noteq> [] \<and> decrypt (encrypt r) = Inr r \<longrightarrow>
        (isAdmin decrypt (login encrypt t r st') \<longleftrightarrow> r = ''ADMIN''))"
proof (intro conjI impI)
  show "isAdmin decrypt st \<longleftrightarrow>
      (\<exists>c. st ''role'' = Some c \<and> c \<noteq> [] \<and> decrypt c = Inr ''ADMIN'')"
    by (rule isAdmin_iff)
next
  assume "st ''role'' = None"
  then show "\<not> isAdmin decrypt st" by (simp add: isAdmin_iff)
next
  assume "st ''role'' = Some c \<and> decrypt c = Inr r \<and> r \<noteq> ''ADMIN''"
  then show "\<not> isAdmin decrypt st" by (auto simp: isAdmin_iff)
next
  assume "encrypt r \<noteq> [] \<and> decrypt (encrypt r) = Inr r"
  then show "isAdmin decrypt (login encrypt t r st') \<longleftrightarrow> r = ''ADMIN''"
    by (simp add: isAdmin_login)
qed

theorem isAdmin_exact_match_witness:
  "isAdmin demo_decrypt (login demo_encrypt ''t'' ''ADMIN'' Map.empty)
   \<and> \<not> isAdmin demo_decrypt (login demo_encrypt ''t'' ''admin'' Map.empty)
   \<and> \<not> isAdmin demo_decrypt (login demo_encrypt ''t'' [] Map.empty)
   \<and> \<not> isAdmin demo_decrypt [''token'' \<mapsto> demo_encrypt ''t'']
   \<and> \<not> isAdmin demo_decrypt [''role'' \<mapsto> demo_encrypt ''USER'']"
  using isAdmin_exact_match [of demo_decrypt "[''token'' \<mapsto> demo_encrypt ''t'']"
      "''x''" "''x''" demo_encrypt "''t''" Map.empty]
    isAdmin_exact_match [of demo_decrypt "[''role'' \<mapsto> demo_encrypt ''USER'']"
      "demo_encrypt ''USER''" "''USER''" demo_encrypt "''t''" Map.empty]
    isAdmin_exact_match [of demo_decrypt Map.empty "''x''" "''ADMIN''" demo_encrypt "''t''" Map.empty]
    isAdmin_exact_match [of demo_decrypt Map.empty "''x''" "''admin''" demo_encrypt "''t''" Map.empty]
    isAdmin_exact_match [of demo_decrypt Map.empty "''x''" "[]" demo_encrypt "''t''" Map.empty]
  by (simp add: demo_roundtrip)

text \<open>
  C3. \<open>isAuthenticated\<close> holds exactly when the \<open>token\<close> entry is there, is not empty and
  decrypts to a non-empty string; nothing else about the token is looked at. After a login
  with a cipher that decrypts what it encrypted, it holds exactly when the token written was
  not the empty string.
\<close>

theorem isAuthenticated_token_nonempty:
  "(isAuthenticated decrypt st \<longleftrightarrow>
      (\<exists>c p. st ''token'' = Some c \<and> c \<noteq> [] \<and> decrypt c = Inr p \<and> p \<noteq> []))
   \<and> (encrypt t \<noteq> [] \<and> decrypt (encrypt t) = Inr t \<longrightarrow>
        (isAuthenticated decrypt (login encrypt t r st') \<longleftrightarrow> t \<noteq> []))"
  using isAuthenticated_iff [of decrypt st] isAuthenticated_login [of encrypt t decrypt r st']
  by blast

theorem isAuthenticated_token_nonempty_witness:
  "isAuthenticated demo_decrypt (login demo_encrypt ''expired-long-ago'' ''USER'' Map.empty)
   \<and> \<not> isAuthenticated demo_decrypt (login demo_encrypt [] ''USER'' Map.empty)"
  using isAuthenticated_token_nonempty [of demo_decrypt Map.empty demo_encrypt
      "''expired-long-ago''" "''USER''" Map.empty]
    isAuthenticated_token_nonempty [of demo_decrypt Map.empty demo_encrypt
      "[]" "''USER''" Map.empty]
  by (simp add: demo_roundtrip)

subsection \<open>Runs of logins and logouts\<close>

lemma run_ops_snoc:
  "run_ops encrypt (ops @ [op]) st = apply_op encrypt (run_ops encrypt ops st) op"
  by (simp add: run_ops_def)

lemma apply_op_entries:
  "apply_op encrypt st op ''token'' = None \<longleftrightarrow> apply_op encrypt st op ''role'' = None"
  by (cases op) (simp_all add: login_entries logout_entries)

lemma run_ops_entries:
  assumes "st0 ''token'' = None" and "st0 ''role'' = None"
  shows "run_ops encrypt ops st0 ''token'' = None \<longleftrightarrow> run_ops encrypt ops st0 ''role'' = None"
proof (cases ops rule: rev_cases)
  case Nil
  with assms show ?thesis by (simp add: run_ops_def)
next
  case (snoc ops' op)
  then show ?thesis by (simp add: run_ops_snoc apply_op_entries)
qed

lemma apply_op_admin_authenticated:
  assumes cipher: "\<forall>v. encrypt v \<noteq> [] \<and> decrypt (encrypt v) = Inr v"
    and tok: "nonempty_token op"
    and admin: "isAdmin decrypt (apply_op encrypt st op)"
  shows "isAuthenticated decrypt (apply_op encrypt st op)"
proof (cases op)
  case (Login t r)
  with tok have "t \<noteq> []" by simp
  with cipher Login show ?thesis by (simp add: isAuthenticated_login)
next
  case Logout
  with admin show ?thesis by (simp add: not_isAdmin_logout)
qed

lemma run_ops_admin_authenticated:
  assumes cipher: "\<forall>v. encrypt v \<noteq> [] \<and> decrypt (encrypt v) = Inr v"
    and init: "st0 ''token'' = None" "st0 ''role'' = None"
    and toks: "\<forall>op \<in> set ops. nonempty_token op"
    and admin: "isAdmin decrypt (run_ops encrypt ops st0)"
  shows "isAuthenticated decrypt (run_ops encrypt ops st0)"
proof (cases ops rule: rev_cases)
  case Nil
  with init admin show ?thesis by (simp add: run_ops_def isAdmin_iff)
next
  case (snoc ops' op)
  with toks have "nonempty_token op" by simp
  with cipher admin snoc show ?thesis
    by (simp add: run_ops_snoc apply_op_admin_authenticated)
qed

text \<open>
  C5, as the code has it. The claim as stated fails for a login whose token is the empty
  string: both entries are written, yet \<open>isAuthenticated\<close> is false, and with the role
  \<open>ADMIN\<close> the session is in a fourth state, admin without being authenticated.
\<close>

theorem login_empty_token_counterexample:
  "\<not> isAuthenticated demo_decrypt (run_ops demo_encrypt [Login [] ''ADMIN''] Map.empty)
   \<and> isAdmin demo_decrypt (run_ops demo_encrypt [Login [] ''ADMIN''] Map.empty)"
  by (simp add: run_ops_def isAuthenticated_login isAdmin_login demo_roundtrip)

text \<open>
  C5, amended. \<open>login\<close> writes both entries and \<open>logout\<close> removes both, so after every run
  of logins and logouts from a storage with neither entry, the token and role entries are
  both there or both missing. With a cipher that decrypts what it encrypted, and logins
  whose tokens are not empty, the session is in one of three states: never admin without
  being authenticated; anonymous (neither) at the start and after \<open>logout\<close>; authenticated
  after \<open>login\<close>, and then admin exactly when the role written was \<open>ADMIN\<close>.
  \<open>isAuthenticated\<close> is false right after \<open>logout\<close> and true right after
  \<open>login("t", "USER")\<close>.
\<close>

theorem session_three_states:
  "(login encrypt t r st ''token'' = Some (encrypt t)
      \<and> login encrypt t r st ''role'' = Some (encrypt r))
   \<and> (logout st ''token'' = None \<and> logout st ''role'' = None)
   \<and> (st0 ''token'' = None \<and> st0 ''role'' = None \<longrightarrow>
        (run_ops encrypt ops st0 ''token'' = None \<longleftrightarrow> run_ops encrypt ops st0 ''role'' = None))
   \<and> ((\<forall>v. encrypt v \<noteq> [] \<and> decrypt (encrypt v) = Inr v)
        \<and> st0 ''token'' = None \<and> st0 ''role'' = None
        \<and> (\<forall>op \<in> set ops. nonempty_token op) \<longrightarrow>
        (isAdmin decrypt (run_ops encrypt ops st0) \<longrightarrow>
           isAuthenticated decrypt (run_ops encrypt ops st0)))
   \<and> (st0 ''token'' = None \<and> st0 ''role'' = None \<longrightarrow>
        \<not> isAuthenticated decrypt st0 \<and> \<not> isAdmin decrypt st0)
   \<and> ((\<forall>v. encrypt v \<noteq> [] \<and> decrypt (encrypt v) = Inr v) \<and> t \<noteq> [] \<longrightarrow>
        isAuthenticated decrypt (login encrypt t r st)
        \<and> (isAdmin decrypt (login encrypt t r st) \<longleftrightarrow> r = ''ADMIN''))
   \<and> (\<not> isAuthenticated decrypt (logout st) \<and> \<not> isAdmin decrypt (logout st))
   \<and> (encrypt ''t'' \<noteq> [] \<and> decrypt (encrypt ''t'') = Inr ''t'' \<longrightarrow>
        isAuthenticated decrypt (login encrypt ''t'' ''USER'' st))"
proof (intro conjI impI)
  show "login encrypt t r st ''token'' = Some (encrypt t)"
    and "login encrypt t r st ''role'' = Some (encrypt r)"
    by (rule login_entries)+
next
  show "logout st ''token'' = None" and "logout st ''role'' = None"
    by (rule logout_entries)+
next
  assume "st0 ''token'' = None \<and> st0 ''role'' = None"
  then show "run_ops encrypt ops st0 ''token'' = None
      \<longleftrightarrow> run_ops encrypt ops st0 ''role'' = None"
    by (simp add: run_ops_entries)
next
  assume "(\<forall>v. encrypt v \<noteq> [] \<and> decrypt (encrypt v) = Inr v)
      \<and> st0 ''token'' = None \<and> st0 ''role'' = None
      \<and> (\<forall>op \<in> set ops. nonempty_token op)"
    and "isAdmin decrypt (run_ops encrypt ops st0)"
  then show "isAuthenticated decrypt (run_ops encrypt ops st0)"
    using run_ops_admin_authenticated [of encrypt decrypt st0 ops] by blast
next
  assume init: "st0 ''token'' = None \<and> st0 ''role'' = None"
  then show "\<not> isAuthenticated decrypt st0" by (simp add: isAuthenticated_iff)
  from init show "\<not> isAdmin decrypt st0" by (simp add: isAdmin_iff)
next
  assume c: "(\<forall>v. encrypt v \<noteq> [] \<and> decrypt (encrypt v) = Inr v) \<and> t \<noteq> []"
  then show "isAuthenticated decrypt (login encrypt t r st)"
    by (simp add: isAuthenticated_login)
  from c show "isAdmin decrypt (login encrypt t r st) \<longleftrightarrow> r = ''ADMIN''"
    by (simp add: isAdmin_login)
next
  show "\<not> isAuthenticated decrypt (logout st)" by (rule not_isAuthenticated_logout)
  show "\<not> isAdmin decrypt (logout st)" by (rule not_isAdmin_logout)
next
  assume "encrypt ''t'' \<noteq> [] \<and> decrypt (encrypt ''t'') = Inr ''t''"
  then show "isAuthenticated decrypt (login encrypt ''t'' ''USER'' st)"
    by (simp add: isAuthenticated_login)
qed

theorem session_three_states_witness:
  "demo_decrypt (demo_encrypt ''t'') = Inr ''t''
   \<and> demo_decrypt (demo_encrypt ''ADMIN'') = Inr ''ADMIN''
   \<and> nonempty_token (Login ''t'' ''USER'') \<and> nonempty_token Logout
   \<and> nonempty_token (Login ''u'' ''ADMIN'')
   \<and> run_ops demo_encrypt [Login ''t'' ''USER'', Logout, Login ''u'' ''ADMIN''] Map.empty ''token''
       \<noteq> None
   \<and> run_ops demo_encrypt [Login ''t'' ''USER'', Logout, Login ''u'' ''ADMIN''] Map.empty ''role''
       \<noteq> None
   \<and> isAdmin demo_decrypt
       (run_ops demo_encrypt [Login ''t'' ''USER'', Logout, Login ''u'' ''ADMIN''] Map.empty)
   \<and> isAuthenticated demo_decrypt
       (run_ops demo_encrypt [Login ''t'' ''USER'', Logout, Login ''u'' ''ADMIN''] Map.empty)
   \<and> \<not> isAuthenticated demo_decrypt (Map.empty :: storage)
   \<and> isAuthenticated demo_decrypt (login demo_encrypt ''t'' ''USER'' Map.empty)
   \<and> \<not> isAdmin demo_decrypt (login demo_encrypt ''t'' ''USER'' Map.empty)
   \<and> \<not> isAuthenticated demo_decrypt (logout (login demo_encrypt ''t'' ''USER'' Map.empty))"
proof -
  have cipher: "\<forall>v. demo_encrypt v \<noteq> [] \<and> demo_decrypt (demo_encrypt v) = Inr v"
    by (simp add: demo_roundtrip)
  have toks: "\<forall>op \<in> set [Login ''t'' ''USER'', Logout, Login ''u'' ''ADMIN'']. nonempty_token op"
    by simp
  have run: "run_ops demo_encrypt [Login ''t'' ''USER'', Logout, Login ''u'' ''ADMIN''] Map.empty
      = login demo_encrypt ''u'' ''ADMIN'' (logout (login demo_encrypt ''t'' ''USER'' Map.empty))"
    by (simp add: run_ops_def)
  have admin: "isAdmin demo_decrypt
      (run_ops demo_encrypt [Login ''t'' ''USER'', Logout, Login ''u'' ''ADMIN''] Map.empty)"
    by (simp add: run isAdmin_login demo_roundtrip)
  show ?thesis
    using cipher toks admin
      session_three_states [of demo_encrypt "''t''" "''USER''" Map.empty Map.empty
        "[Login ''t'' ''USER'', Logout, Login ''u'' ''ADMIN'']" demo_decrypt]
      session_three_states [of demo_encrypt "''u''" "''ADMIN''"
        "logout (login demo_encrypt ''t'' ''USER'' Map.empty)" Map.empty "[]" demo_decrypt]
      session_three_states [of demo_encrypt "''t''" "''USER''"
        "login demo_encrypt ''t'' ''USER'' Map.empty" Map.empty "[]" demo_decrypt]
    by (simp add: run)
qed

section \<open>Properties of the route guard\<close>

text \<open>
  C1. When the route's \<open>requiresAdmin\<close> flag is \<open>true\<close> the guard allows entry exactly when
  \<open>isAdmin\<close> holds; otherwise (flag \<open>false\<close> or not configured) exactly when
  \<open>isAuthenticated\<close> holds. An allowed entry navigates nowhere; every denial navigates to
  \<open>/login\<close> with the requested URL as the \<open>returnUrl\<close> query parameter.
\<close>

theorem canActivate_decision:
  "(fst (canActivate decrypt st routeData url) \<longleftrightarrow>
      (if routeData = Some True then isAdmin decrypt st else isAuthenticated decrypt st))
   \<and> (fst (canActivate decrypt st routeData url) \<longrightarrow>
        snd (canActivate decrypt st routeData url) = None)
   \<and> (\<not> fst (canActivate decrypt st routeData url) \<longrightarrow>
        snd (canActivate decrypt st routeData url)
          = Some (Navigate [''/login''] [(''returnUrl'', url)]))"
proof -
  have flag: "or_false routeData \<longleftrightarrow> routeData = Some True"
    by (cases routeData) auto
  show ?thesis
    by (simp add: canActivate_def flag)
qed

theorem canActivate_decision_witness:
  "canActivate demo_decrypt (login demo_encrypt ''t'' ''USER'' Map.empty) (Some True) ''/category''
     = (False, Some (Navigate [''/login''] [(''returnUrl'', ''/category'')]))
   \<and> canActivate demo_decrypt (login demo_encrypt ''t'' ''USER'' Map.empty) None ''/profile''
     = (True, None)
   \<and> canActivate demo_decrypt (login demo_encrypt ''t'' ''ADMIN'' Map.empty) (Some True) ''/category''
     = (True, None)
   \<and> canActivate demo_decrypt Map.empty (Some False) ''/profile''
     = (False, Some (Navigate [''/login''] [(''returnUrl'', ''/profile'')]))"
proof -
  have user: "isAuthenticated demo_decrypt (login demo_encrypt ''t'' ''USER'' Map.empty)"
    "\<not> isAdmin demo_decrypt (login demo_encrypt ''t'' ''USER'' Map.empty)"
    by (simp_all add: isAdmin_login isAuthenticated_login demo_roundtrip)
  have admin: "isAdmin demo_decrypt (login demo_encrypt ''t'' ''ADMIN'' Map.empty)"
    by (simp add: isAdmin_login demo_roundtrip)
  have anonymous: "\<not> isAuthenticated demo_decrypt Map.empty"
    by (simp add: isAuthenticated_iff)
  show ?thesis
    using canActivate_decision [of demo_decrypt "login demo_encrypt ''t'' ''USER'' Map.empty"
        "Some True" "''/category''"]
      canActivate_decision [of demo_decrypt "login demo_encrypt ''t'' ''USER'' Map.empty"
        None "''/profile''"]
      canActivate_decision [of demo_decrypt "login demo_encrypt ''t'' ''ADMIN'' Map.empty"
        "Some True" "''/category''"]
      canActivate_decision [of demo_decrypt Map.empty "Some False" "''/profile''"]
    by (simp add: prod_eq_iff user admin anonymous)
qed

section \<open>Properties of the pagination\<close>

lemma ceil_bounds:
  fixes n :: nat and d :: int
  assumes d: "0 < d"
  shows "(\<lceil>real n / real_of_int d\<rceil> - 1) * d < int n"
    and "int n \<le> \<lceil>real n / real_of_int d\<rceil> * d"
proof -
  let ?tp = "\<lceil>real n / real_of_int d\<rceil>"
  from d have d': "0 < real_of_int d" by simp
  have "real_of_int ?tp - 1 < real n / real_of_int d" by linarith
  with d' have "(real_of_int ?tp - 1) * real_of_int d < real n"
    by (simp add: pos_less_divide_eq)
  then have "real_of_int ((?tp - 1) * d) < real_of_int (int n)" by simp
  then show "(?tp - 1) * d < int n" by (simp only: of_int_less_iff)
  have "real n / real_of_int d \<le> real_of_int ?tp" by (rule le_of_int_ceiling)
  then have "real n \<le> real_of_int ?tp * real_of_int d"
    by (simp only: pos_divide_le_eq [OF d'])
  then have "real_of_int (int n) \<le> real_of_int (?tp * d)" by simp
  then show "int n \<le> ?tp * d" by (simp only: of_int_le_iff)
qed

lemma ceil_least:
  fixes n :: nat and d :: int
  assumes d: "0 < d"
  shows "int n \<le> k * d \<longleftrightarrow> \<lceil>real n / real_of_int d\<rceil> \<le> k"
proof -
  from d have d': "0 < real_of_int d" by simp
  have "int n \<le> k * d \<longleftrightarrow> real_of_int (int n) \<le> real_of_int (k * d)"
    by (simp only: of_int_le_iff)
  also have "\<dots> \<longleftrightarrow> real n / real_of_int d \<le> real_of_int k"
    using d' by (simp add: pos_divide_le_eq)
  also have "\<dots> \<longleftrightarrow> \<lceil>real n / real_of_int d\<rceil> \<le> k"
    by (simp add: ceiling_le_iff)
  finally show ?thesis .
qed

lemma int_div_bounds:
  fixes x d :: int
  assumes d: "0 < d"
  shows "x div d * d \<le> x" and "x < (x div d + 1) * d"
proof -
  have split: "x = x div d * d + x mod d" by simp
  from d have "0 \<le> x mod d" and "x mod d < d" by simp_all
  with split show "x div d * d \<le> x" by linarith
  have "(x div d + 1) * d = x div d * d + d" by (simp add: algebra_simps)
  with split \<open>x mod d < d\<close> show "x < (x div d + 1) * d" by linarith
qed

lemma ceil_div_eq:
  fixes n :: nat and d :: int
  assumes d: "0 < d"
  shows "\<lceil>real n / real_of_int d\<rceil> = (int n + d - 1) div d"
proof (rule antisym)
  let ?q = "(int n + d - 1) div d"
  have "int n + d - 1 < (?q + 1) * d" using d by (rule int_div_bounds)
  moreover have "(?q + 1) * d = ?q * d + d" by (simp add: algebra_simps)
  ultimately have "int n \<le> ?q * d" by linarith
  with d show "\<lceil>real n / real_of_int d\<rceil> \<le> ?q" by (simp add: ceil_least)
next
  let ?tp = "\<lceil>real n / real_of_int d\<rceil>" and ?q = "(int n + d - 1) div d"
  have up: "int n \<le> ?tp * d" using d by (rule ceil_bounds)
  have lo: "?q * d \<le> int n + d - 1" using d by (rule int_div_bounds)
  show "?q \<le> ?tp"
  proof (rule ccontr)
    assume "\<not> ?q \<le> ?tp"
    then have "?tp + 1 \<le> ?q" by simp
    with d have "(?tp + 1) * d \<le> ?q * d" by (simp only: mult_right_mono)
    moreover have "(?tp + 1) * d = ?tp * d + d" by (simp add: algebra_simps)
    ultimately show False using up lo by linarith
  qed
qed

lemma slice_nonneg:
  assumes a: "0 \<le> a" and b: "0 \<le> b"
  shows "slice xs a b = drop (nat a) (take (nat b) xs)"
proof -
  have target: "drop (nat a) (take (nat b) xs) = take (nat b - nat a) (drop (nat a) xs)"
    by (simp add: drop_take)
  show ?thesis
  proof (cases "a \<le> int (length xs)")
    case inside: True
    show ?thesis
    proof (cases "b \<le> int (length xs)")
      case True
      with a b inside have "slice xs a b = take (nat (b - a)) (drop (nat a) xs)"
        by (simp add: slice_def Let_def)
      also from a b have "nat (b - a) = nat b - nat a" by (simp add: nat_diff_distrib')
      finally show ?thesis by (simp add: target)
    next
      case False
      with a b inside have "slice xs a b = take (nat (int (length xs) - a)) (drop (nat a) xs)"
        by (simp add: slice_def Let_def)
      also from a inside have "\<dots> = drop (nat a) xs" by simp
      also from False b have "\<dots> = take (nat b - nat a) (drop (nat a) xs)" by simp
      finally show ?thesis by (simp add: target)
    qed
  next
    case False
    with a have "length xs \<le> nat a" by linarith
    with a b False show ?thesis by (simp add: slice_def Let_def)
  qed
qed

lemma length_slice_nonneg:
  assumes "0 \<le> a" and "0 \<le> b"
  shows "int (length (slice xs a b)) = max 0 (min b (int (length xs)) - a)"
proof -
  from assms have "int (min (length xs) (nat b) - nat a) = max 0 (min b (int (length xs)) - a)"
    by simp
  with assms show ?thesis by (simp add: slice_nonneg)
qed

lemma loadTransactions_fields:
  "totalPages (loadTransactions (Success (Some items)) c)
     = Math_ceil_div (length items) (itemsPerPage c)"
  "transactions (loadTransactions (Success (Some items)) c)
     = slice items ((currentPage c - 1) * itemsPerPage c) (currentPage c * itemsPerPage c)"
  "currentPage (loadTransactions res c) = currentPage c"
  "itemsPerPage (loadTransactions res c) = itemsPerPage c"
  by (simp_all add: loadTransactions_def Let_def split: api_result.splits)

text \<open>
  In TransactionComponent the page count is the ceiling of the item count over the page
  size: the least number of pages of that size that hold all the items, which is zero for
  the empty list (and for a response without the list).
\<close>

lemma loadTransactions_totalPages:
  assumes "0 < itemsPerPage c"
  shows "totalPages (loadTransactions (Success (Some items)) c)
           = Finite ((int (length items) + itemsPerPage c - 1) div itemsPerPage c)"
    and "totalPages (loadTransactions (Success (Some [])) c) = Finite 0"
    and "totalPages (loadTransactions (Success None) c) = Finite 0"
  using assms
  by (simp_all add: loadTransactions_def Let_def Math_ceil_div_def ceil_div_eq)

lemma fetchProducts_totalPages:
  assumes "0 < productItemsPerPage c" and "items \<noteq> []"
  shows "\<exists>c'. fetchProducts (Success (Some items)) c = Inr c'
           \<and> productTotalPages c'
               = Finite ((int (length items) + productItemsPerPage c - 1) div productItemsPerPage c)"
  using assms
  by (simp add: fetchProducts_def Let_def Math_ceil_div_def ceil_div_eq)

text \<open>
  C6. The page count is meant to be the ceiling of the item count over the page size, zero
  for the empty list. \<open>fetchProducts\<close> does not get there for the empty list: the property
  read on the first product throws before \<open>totalPages\<close> is assigned, so a component that
  showed one product on one page keeps both when the list has become empty.
\<close>

theorem fetchProducts_empty_list_throws:
  "fetchProducts (Success (Some []))
     \<lparr>products = [''widget''], productCurrentPage = 1, productTotalPages = Finite 1,
      productItemsPerPage = 10\<rparr> = Inl TypeError"
  by (simp add: fetchProducts_def)

text \<open>
  C7. For a positive page size and a page number \<open>p\<close> from 1, the page of transactions is
  \<open>items[(p-1)*pageSize : p*pageSize]\<close>. Beyond the last page it is empty; on every page
  before the last it has \<open>pageSize\<close> items, and on the last page the items that remain.
  \<open>loadTransactions\<close> has a result for every input.
\<close>

theorem loadTransactions_page_slice:
  assumes size: "0 < itemsPerPage c" and page: "1 \<le> currentPage c"
  shows
    "transactions (loadTransactions (Success (Some items)) c)
       = drop (nat ((currentPage c - 1) * itemsPerPage c))
           (take (nat (currentPage c * itemsPerPage c)) items)
     \<and> totalPages (loadTransactions (Success (Some items)) c)
         = Finite \<lceil>real (length items) / real_of_int (itemsPerPage c)\<rceil>
     \<and> (\<lceil>real (length items) / real_of_int (itemsPerPage c)\<rceil> < currentPage c \<longrightarrow>
          transactions (loadTransactions (Success (Some items)) c) = [])
     \<and> (currentPage c < \<lceil>real (length items) / real_of_int (itemsPerPage c)\<rceil> \<longrightarrow>
          int (length (transactions (loadTransactions (Success (Some items)) c)))
            = itemsPerPage c)
     \<and> (currentPage c = \<lceil>real (length items) / real_of_int (itemsPerPage c)\<rceil> \<longrightarrow>
          int (length (transactions (loadTransactions (Success (Some items)) c)))
            = int (length items)
                - itemsPerPage c * (\<lceil>real (length items) / real_of_int (itemsPerPage c)\<rceil> - 1))"
proof -
  let ?d = "itemsPerPage c" and ?p = "currentPage c" and ?n = "int (length items)"
  let ?tp = "\<lceil>real (length items) / real_of_int ?d\<rceil>"
  let ?page = "transactions (loadTransactions (Success (Some items)) c)"
  define A B where "A = (?p - 1) * ?d" and "B = ?p * ?d"
  have AB: "B = A + ?d" by (simp add: A_def B_def algebra_simps)
  from size page have lo: "0 \<le> A" and hi: "0 \<le> B" by (simp_all add: A_def B_def)
  have below: "(?tp - 1) * ?d < ?n" and above: "?n \<le> ?tp * ?d"
    using ceil_bounds [OF size, of "length items"] by simp_all
  have page_eq: "?page = slice items A B"
    by (simp add: loadTransactions_fields A_def B_def)
  have len: "int (length ?page) = max 0 (min B ?n - A)"
    using lo hi by (simp only: page_eq length_slice_nonneg)
  have slice_eq: "?page = drop (nat ((?p - 1) * ?d)) (take (nat (?p * ?d)) items)"
    using lo hi by (simp add: page_eq slice_nonneg) (simp add: A_def B_def)
  have total: "totalPages (loadTransactions (Success (Some items)) c) = Finite ?tp"
    using size by (simp add: loadTransactions_fields Math_ceil_div_def)
  have beyond: "?page = []" if "?tp < ?p"
  proof -
    from that have "?tp \<le> ?p - 1" by simp
    with size have "?tp * ?d \<le> A" unfolding A_def by (simp only: mult_right_mono)
    with above have "?n \<le> A" by linarith
    with len have "int (length ?page) = 0" by linarith
    then show ?thesis by simp
  qed
  have full: "int (length ?page) = ?d" if "?p < ?tp"
  proof -
    from that have "?p \<le> ?tp - 1" by simp
    with size have "B \<le> (?tp - 1) * ?d" unfolding B_def by (simp only: mult_right_mono)
    with below have "B < ?n" by linarith
    with len AB size show ?thesis by linarith
  qed
  have last: "int (length ?page) = ?n - ?d * (?tp - 1)" if "?p = ?tp"
  proof -
    from that above have "?n \<le> B" by (simp add: B_def)
    moreover from that below have "A < ?n" by (simp add: A_def)
    moreover from that have "?d * (?tp - 1) = A" by (simp add: A_def algebra_simps)
    ultimately show ?thesis using len by linarith
  qed
  from slice_eq total beyond full last show ?thesis by blast
qed

theorem loadTransactions_page_slice_witness:
  "(0::int) < 10 \<and> (1::int) \<le> 3
   \<and> transactions (loadTransactions (Success (Some [1 ..< 26]))
        \<lparr>transactions = [], currentPage = 3, totalPages = Finite 0, itemsPerPage = 10\<rparr>)
       = [21, 22, 23, 24, 25 :: nat]
   \<and> totalPages (loadTransactions (Success (Some [1 ..< 26 :: nat]))
        \<lparr>transactions = [], currentPage = 3, totalPages = Finite 0, itemsPerPage = 10\<rparr>)
       = Finite 3
   \<and> transactions (loadTransactions (Success (Some [1 ..< 26 :: nat]))
        \<lparr>transactions = [], currentPage = 4, totalPages = Finite 0, itemsPerPage = 10\<rparr>)
       = []
   \<and> length (transactions (loadTransactions (Success (Some [1 ..< 26 :: nat]))
        \<lparr>transactions = [], currentPage = 2, totalPages = Finite 0, itemsPerPage = 10\<rparr>))
       = 10"
proof -
  have up: "[1 ..< 26] = [1, 2, 3, 4, 5, 6, 7, 8, 9, 10, 11, 12, 13, 14, 15, 16, 17, 18, 19, 20,
      21, 22, 23, 24, 25 :: nat]"
    by (simp add: upt_rec)
  have ceil: "\<lceil>real 25 / real_of_int 10\<rceil> = (3::int)"
    by (simp add: ceiling_eq_iff)
  show ?thesis
    using loadTransactions_page_slice [of
        "\<lparr>transactions = [], currentPage = 3, totalPages = Finite 0, itemsPerPage = 10\<rparr>"
        "[1 ..< 26 :: nat]"]
      loadTransactions_page_slice [of
        "\<lparr>transactions = [], currentPage = 4, totalPages = Finite 0, itemsPerPage = 10\<rparr>"
        "[1 ..< 26 :: nat]"]
      loadTransactions_page_slice [of
        "\<lparr>transactions = [], currentPage = 2, totalPages = Finite 0, itemsPerPage = 10\<rparr>"
        "[1 ..< 26 :: nat]"]
    by (simp add: ceil up)
qed

lemma pageNumbers_upto: "map (\<lambda>i. int i + 1) [0..<n] = [1..int n]"
proof (induction n)
  case 0
  show ?case by simp
next
  case (Suc n)
  have "[1..int (Suc n)] = [1..int n] @ [int n + 1]"
    using upto_rec2 [of 1 "int n + 1"] by (simp add: add.commute)
  with Suc show ?case by simp
qed

text \<open>
  C8. \<open>pageNumbers\<close> is the list of the page numbers from 1 to \<open>totalPages\<close> in ascending
  order (empty when \<open>totalPages\<close> is below 1). \<open>onPageChange\<close> emits the requested page
  when it is between 1 and \<open>totalPages\<close> and emits nothing otherwise; it never changes the
  component, so its current page stays as it was.
\<close>

theorem pagination_selector:
  "pageNumbers c = [1..totalPages_in c]
   \<and> snd (onPageChange requested c)
       = (if 1 \<le> requested \<and> requested \<le> totalPages_in c then Some requested else None)
   \<and> fst (onPageChange requested c) = c"
proof -
  have "pageNumbers c = [1..int (nat (totalPages_in c))]"
    by (simp add: pageNumbers_def pageNumbers_upto)
  also have "\<dots> = [1..totalPages_in c]"
    by (cases "0 \<le> totalPages_in c") (simp_all add: upto.simps)
  finally show ?thesis by (simp add: onPageChange_def)
qed



section \<open>Properties of the dashboard aggregation\<close>

lemma filter_key_absent: "k \<notin> f ` set ts \<Longrightarrow> filter (\<lambda>t. f t = k) ts = []"
  by (induction ts) auto

lemma proto_member: "''__proto__'' \<in> set object_prototype_members"
  by (simp add: object_prototype_members_def)

lemma add_to_property_other:
  "key \<noteq> k \<Longrightarrow> add_to_property add zero falsy obj key y k = obj k"
  by (simp add: add_to_property_def set_property_def)

lemma add_to_property_same:
  "k \<noteq> ''__proto__'' \<Longrightarrow>
   add_to_property add zero falsy obj k y k
     = Some (or_zero_plus add zero falsy (get_property obj k) y)"
  by (simp add: add_to_property_def set_property_def)

lemma add_to_property_proto:
  "add_to_property add zero falsy obj ''__proto__'' y = obj"
  by (simp add: add_to_property_def set_property_def)

lemma running_total_Nil: "running_total add zero falsy [] = zero"
  by (simp add: running_total_def)

lemma running_total_single: "running_total add zero falsy [p] = add zero p"
  by (simp add: running_total_def)

lemma running_total_snoc:
  "running_total add zero falsy (ps @ [p])
     = add (if falsy (running_total add zero falsy ps) then zero
            else running_total add zero falsy ps) p"
  by (simp add: running_total_def)

text \<open>
  Under a key that \<open>Object.prototype\<close> does not have, the loop of
  \<open>obj[key] = (obj[key] || 0) + y\<close> from the empty object leaves the running total of the
  numbers added under that key, in their order, and nothing when there were none.
\<close>

lemma fold_add_to_property:
  assumes k: "k \<notin> set object_prototype_members"
  shows "foldl (\<lambda>obj t. add_to_property add zero falsy obj (key t) (val t)) Map.empty ts k =
     (if k \<in> key ` set ts
      then Some (Num (running_total add zero falsy (map val (filter (\<lambda>t. key t = k) ts))))
      else None)"
proof (induction ts rule: rev_induct)
  case Nil
  show ?case by simp
next
  case (snoc t ts)
  let ?obj = "foldl (\<lambda>obj t. add_to_property add zero falsy obj (key t) (val t)) Map.empty ts"
  from k proto_member have not_proto: "k \<noteq> ''__proto__''" by auto
  show ?case
  proof (cases "key t = k")
    case False
    with snoc.IH show ?thesis by (auto simp: add_to_property_other)
  next
    case same: True
    show ?thesis
    proof (cases "k \<in> key ` set ts")
      case True
      with snoc.IH have "get_property ?obj k
          = Own (Num (running_total add zero falsy (map val (filter (\<lambda>t. key t = k) ts))))"
        by (simp add: get_property_def)
      with same not_proto show ?thesis
        by (simp add: add_to_property_same running_total_snoc)
    next
      case False
      with snoc.IH k have "get_property ?obj k = Undefined"
        by (simp add: get_property_def)
      with same not_proto False show ?thesis
        by (simp add: add_to_property_same filter_key_absent running_total_single)
    qed
  qed
qed

text \<open>
  Under the name of a member of \<open>Object.prototype\<close> the loop leaves a string, and under
  \<open>__proto__\<close> nothing.
\<close>

lemma fold_add_to_property_inherited:
  assumes k: "k \<in> set object_prototype_members"
  shows "foldl (\<lambda>obj t. add_to_property add zero falsy obj (key t) (val t)) Map.empty ts k =
     (if k \<in> key ` set ts \<and> k \<noteq> ''__proto__'' then Some Str else None)"
proof (induction ts rule: rev_induct)
  case Nil
  show ?case by simp
next
  case (snoc t ts)
  let ?obj = "foldl (\<lambda>obj t. add_to_property add zero falsy obj (key t) (val t)) Map.empty ts"
  show ?case
  proof (cases "key t = k")
    case False
    with snoc.IH show ?thesis by (auto simp: add_to_property_other)
  next
    case same: True
    show ?thesis
    proof (cases "k = ''__proto__''")
      case True
      with snoc.IH same show ?thesis by (simp add: add_to_property_proto)
    next
      case not_proto: False
      have "or_zero_plus add zero falsy (get_property ?obj k) (val t) = Str"
      proof (cases "k \<in> key ` set ts")
        case True
        with snoc.IH not_proto have "get_property ?obj k = Own Str"
          by (simp add: get_property_def)
        then show ?thesis by simp
      next
        case False
        with snoc.IH k have "get_property ?obj k = Inherited"
          by (simp add: get_property_def)
        then show ?thesis by simp
      qed
      with same not_proto show ?thesis by (simp add: add_to_property_same)
    qed
  qed
qed

lemma chart_fold_split:
  "foldl (chart_step add zero falsy) (m1, m2) ts =
     (foldl (\<lambda>obj t. add_to_property (+) 0 (\<lambda>n. n = 0) obj (transactionType t) 1) m1 ts,
      foldl (\<lambda>obj t. add_to_property add zero falsy obj (transactionType t) (totalPrice t)) m2 ts)"
  by (induction ts arbitrary: m1 m2) (simp_all add: chart_step_def Let_def)

lemma running_total_count:
  "running_total (+) 0 (\<lambda>n. n = 0) (replicate m 1) = int m"
proof (induction m)
  case 0
  show ?case by (simp add: running_total_Nil)
next
  case (Suc m)
  have "replicate (Suc m) (1::int) = replicate m 1 @ [1]"
    by (simp add: replicate_append_same)
  with Suc show ?case by (simp only: running_total_snoc) simp
qed

lemma running_total_count_map:
  "running_total (+) 0 (\<lambda>n. n = 0) (map (\<lambda>t. 1) xs) = int (length xs)"
  by (simp only: map_replicate_const running_total_count)

lemma no_reset_iff:
  "no_reset add zero falsy ps \<longleftrightarrow>
     (\<forall>k \<le> length ps. falsy (foldl add zero (take k ps)) \<longrightarrow> foldl add zero (take k ps) = zero)"
  by (auto simp: no_reset_def partial_sums_def less_Suc_eq_le)

text \<open>
  When no partial sum is a falsy number other than zero, the running total is the sum of
  the numbers, added from \<open>0\<close> from left to right.
\<close>

lemma running_total_plain:
  "no_reset add zero falsy ps \<Longrightarrow> running_total add zero falsy ps = foldl add zero ps"
proof (induction ps rule: rev_induct)
  case Nil
  show ?case by (simp add: running_total_Nil)
next
  case (snoc p ps)
  from snoc.prems have whole: "falsy (foldl add zero ps) \<longrightarrow> foldl add zero ps = zero"
    unfolding no_reset_iff by (auto dest: spec [of _ "length ps"])
  have "no_reset add zero falsy ps"
    unfolding no_reset_iff
  proof (intro allI impI)
    fix k assume "k \<le> length ps" and "falsy (foldl add zero (take k ps))"
    with snoc.prems show "foldl add zero (take k ps) = zero"
      unfolding no_reset_iff by (auto dest!: spec [of _ k])
  qed
  then have "running_total add zero falsy ps = foldl add zero ps" by (rule snoc.IH)
  with whole show ?case by (auto simp: running_total_snoc)
qed

lemma processChartData_counts:
  assumes "ty \<notin> set object_prototype_members"
  shows "fst (processChartData add zero falsy ts) ty =
     (if ty \<in> transactionType ` set ts
      then Some (Num (int (length (filter (\<lambda>t. transactionType t = ty) ts))))
      else None)"
  using fold_add_to_property [OF assms, of "(+)" "0::int" "\<lambda>n. n = 0" transactionType
      "\<lambda>t. 1" ts]
  by (simp add: processChartData_def chart_fold_split running_total_count_map)

lemma processChartData_sums:
  assumes "ty \<notin> set object_prototype_members"
  shows "snd (processChartData add zero falsy ts) ty =
     (if ty \<in> transactionType ` set ts
      then Some (Num (running_total add zero falsy
                   (map totalPrice (filter (\<lambda>t. transactionType t = ty) ts))))
      else None)"
  using fold_add_to_property [OF assms, of add zero falsy transactionType totalPrice ts]
  by (simp add: processChartData_def chart_fold_split)

lemma processChartData_inherited:
  assumes "ty \<in> set object_prototype_members"
  shows "fst (processChartData add zero falsy ts) ty =
     (if ty \<in> transactionType ` set ts \<and> ty \<noteq> ''__proto__'' then Some Str else None)"
    and "snd (processChartData add zero falsy ts) ty =
     (if ty \<in> transactionType ` set ts \<and> ty \<noteq> ''__proto__'' then Some Str else None)"
  using fold_add_to_property_inherited [OF assms, of "(+)" "0::int" "\<lambda>n. n = 0" transactionType
      "\<lambda>t. 1" ts]
    fold_add_to_property_inherited [OF assms, of add zero falsy transactionType totalPrice ts]
  by (simp_all add: processChartData_def chart_fold_split)

lemma processChartData_example:
  assumes "add zero p10 = p10" and "\<not> falsy p10" and "add p10 p20 = p30" and "add zero p5 = p5"
  shows "processChartData add zero falsy
       [\<lparr>transactionType = ''SELL'', totalPrice = p10, createdAt = c1\<rparr>,
        \<lparr>transactionType = ''SELL'', totalPrice = p20, createdAt = c2\<rparr>,
        \<lparr>transactionType = ''PURCHASE'', totalPrice = p5, createdAt = c3\<rparr>]
     = ([''SELL'' \<mapsto> Num 2, ''PURCHASE'' \<mapsto> Num 1],
        [''SELL'' \<mapsto> Num p30, ''PURCHASE'' \<mapsto> Num p5])"
  using assms
  by (simp add: processChartData_def chart_step_def Let_def add_to_property_def
      get_property_def set_property_def object_prototype_members_def)

text \<open>
  C9, as the code has it. The claim as stated fails for a transaction whose type is the
  name of a member that every object inherits: for one record of the type \<open>constructor\<close>
  the count stored is not \<open>1\<close> and the amount stored is not its price, both are strings.
\<close>

theorem processChartData_constructor_counterexample:
  "fst (processChartData (+) 0 (\<lambda>x. x = 0)
         [\<lparr>transactionType = ''constructor'', totalPrice = 10 :: int,
           createdAt = ''2024-03-01T09:00:00''\<rparr>]) ''constructor'' = Some Str
   \<and> snd (processChartData (+) 0 (\<lambda>x. x = 0)
         [\<lparr>transactionType = ''constructor'', totalPrice = 10 :: int,
           createdAt = ''2024-03-01T09:00:00''\<rparr>]) ''constructor'' = Some Str"
  by (simp add: processChartData_def chart_step_def Let_def add_to_property_def
      get_property_def set_property_def object_prototype_members_def)

text \<open>
  C9, amended. For every list of transactions and every type that is not the name of a
  member of \<open>Object.prototype\<close>, \<open>typeCounts\<close> holds the number of transactions of that
  type and \<open>amountByType\<close> the total of their prices, added in the order of the list in the
  arithmetic of the platform from \<open>0\<close> (a total that is falsy counts as \<open>0\<close> in the next
  addition, so the total is the left-to-right sum when no partial sum is \<open>NaN\<close> or negative
  zero); a type that does not occur has no entry. Under the name of a member of
  \<open>Object.prototype\<close> that occurs, both objects hold a string, and nothing under
  \<open>__proto__\<close>. Both objects are empty for the empty list. For the types SELL, SELL,
  PURCHASE with the prices 10, 20, 5 they are \<open>{SELL: 2, PURCHASE: 1}\<close> and
  \<open>{SELL: 30, PURCHASE: 5}\<close>.
\<close>

theorem processChartData_by_type:
  "(ty \<notin> set object_prototype_members \<longrightarrow>
      fst (processChartData add zero falsy ts) ty =
        (if ty \<in> transactionType ` set ts
         then Some (Num (int (length (filter (\<lambda>t. transactionType t = ty) ts))))
         else None)
      \<and> snd (processChartData add zero falsy ts) ty =
        (if ty \<in> transactionType ` set ts
         then Some (Num (running_total add zero falsy
                      (map totalPrice (filter (\<lambda>t. transactionType t = ty) ts))))
         else None))
   \<and> (no_reset add zero falsy ps \<longrightarrow> running_total add zero falsy ps = foldl add zero ps)
   \<and> (ty \<in> set object_prototype_members \<longrightarrow>
      fst (processChartData add zero falsy ts) ty =
        (if ty \<in> transactionType ` set ts \<and> ty \<noteq> ''__proto__'' then Some Str else None)
      \<and> snd (processChartData add zero falsy ts) ty =
        (if ty \<in> transactionType ` set ts \<and> ty \<noteq> ''__proto__'' then Some Str else None))
   \<and> processChartData add zero falsy [] = (Map.empty, Map.empty)
   \<and> (add zero p10 = p10 \<and> \<not> falsy p10 \<and> add p10 p20 = p30 \<and> add zero p5 = p5 \<longrightarrow>
      processChartData add zero falsy
        [\<lparr>transactionType = ''SELL'', totalPrice = p10, createdAt = c1\<rparr>,
         \<lparr>transactionType = ''SELL'', totalPrice = p20, createdAt = c2\<rparr>,
         \<lparr>transactionType = ''PURCHASE'', totalPrice = p5, createdAt = c3\<rparr>]
      = ([''SELL'' \<mapsto> Num 2, ''PURCHASE'' \<mapsto> Num 1],
         [''SELL'' \<mapsto> Num p30, ''PURCHASE'' \<mapsto> Num p5]))"
proof (intro conjI impI)
  assume ty: "ty \<notin> set object_prototype_members"
  then show "fst (processChartData add zero falsy ts) ty =
        (if ty \<in> transactionType ` set ts
         then Some (Num (int (length (filter (\<lambda>t. transactionType t = ty) ts))))
         else None)"
    by (rule processChartData_counts)
  from ty show "snd (processChartData add zero falsy ts) ty =
        (if ty \<in> transactionType ` set ts
         then Some (Num (running_total add zero falsy
                      (map totalPrice (filter (\<lambda>t. transactionType t = ty) ts))))
         else None)"
    by (rule processChartData_sums)
next
  assume "no_reset add zero falsy ps"
  then show "running_total add zero falsy ps = foldl add zero ps"
    by (rule running_total_plain)
next
  assume ty: "ty \<in> set object_prototype_members"
  then show "fst (processChartData add zero falsy ts) ty =
        (if ty \<in> transactionType ` set ts \<and> ty \<noteq> ''__proto__'' then Some Str else None)"
    by (rule processChartData_inherited)
  from ty show "snd (processChartData add zero falsy ts) ty =
        (if ty \<in> transactionType ` set ts \<and> ty \<noteq> ''__proto__'' then Some Str else None)"
    by (rule processChartData_inherited)
next
  show "processChartData add zero falsy [] = (Map.empty, Map.empty)"
    by (simp add: processChartData_def)
next
  assume "add zero p10 = p10 \<and> \<not> falsy p10 \<and> add p10 p20 = p30 \<and> add zero p5 = p5"
  then show "processChartData add zero falsy
        [\<lparr>transactionType = ''SELL'', totalPrice = p10, createdAt = c1\<rparr>,
         \<lparr>transactionType = ''SELL'', totalPrice = p20, createdAt = c2\<rparr>,
         \<lparr>transactionType = ''PURCHASE'', totalPrice = p5, createdAt = c3\<rparr>]
      = ([''SELL'' \<mapsto> Num 2, ''PURCHASE'' \<mapsto> Num 1],
         [''SELL'' \<mapsto> Num p30, ''PURCHASE'' \<mapsto> Num p5])"
    by (simp add: processChartData_example)
qed

theorem processChartData_by_type_witness:
  "''SELL'' \<notin> set object_prototype_members
   \<and> ''constructor'' \<in> set object_prototype_members
   \<and> (0::int) + 10 = 10 \<and> (10::int) \<noteq> 0 \<and> (10::int) + 20 = 30 \<and> (0::int) + 5 = 5
   \<and> no_reset (+) 0 (\<lambda>x. x = 0) [10, 20 :: int]
   \<and> running_total (+) 0 (\<lambda>x. x = 0) [10, 20 :: int] = 30
   \<and> processChartData (+) 0 (\<lambda>x. x = 0)
        [\<lparr>transactionType = ''SELL'', totalPrice = 10 :: int, createdAt = ''2024-03-01T09:00:00''\<rparr>,
         \<lparr>transactionType = ''SELL'', totalPrice = 20, createdAt = ''2024-03-02T09:00:00''\<rparr>,
         \<lparr>transactionType = ''PURCHASE'', totalPrice = 5, createdAt = ''2024-03-03T09:00:00''\<rparr>]
      = ([''SELL'' \<mapsto> Num 2, ''PURCHASE'' \<mapsto> Num 1],
         [''SELL'' \<mapsto> Num 30, ''PURCHASE'' \<mapsto> Num 5])
   \<and> fst (processChartData (+) 0 (\<lambda>x. x = 0)
        [\<lparr>transactionType = ''SELL'', totalPrice = 10 :: int, createdAt = ''2024-03-01T09:00:00''\<rparr>,
         \<lparr>transactionType = ''SELL'', totalPrice = 20, createdAt = ''2024-03-02T09:00:00''\<rparr>,
         \<lparr>transactionType = ''PURCHASE'', totalPrice = 5, createdAt = ''2024-03-03T09:00:00''\<rparr>])
        ''constructor'' = None"
proof -
  have member: "''SELL'' \<notin> set object_prototype_members"
    "''constructor'' \<in> set object_prototype_members"
    by (simp_all add: object_prototype_members_def)
  have sums: "no_reset (+) 0 (\<lambda>x. x = 0) [10, 20 :: int]"
    by (simp add: no_reset_def partial_sums_def upt_rec)
  show ?thesis
    using member sums
      processChartData_by_type [of "''SELL''" "(+)" "0::int" "\<lambda>x. x = 0"
        "[\<lparr>transactionType = ''SELL'', totalPrice = 10 :: int, createdAt = ''2024-03-01T09:00:00''\<rparr>,
          \<lparr>transactionType = ''SELL'', totalPrice = 20, createdAt = ''2024-03-02T09:00:00''\<rparr>,
          \<lparr>transactionType = ''PURCHASE'', totalPrice = 5, createdAt = ''2024-03-03T09:00:00''\<rparr>]"
        "[10, 20]" 10 20 30 5
        "''2024-03-01T09:00:00''" "''2024-03-02T09:00:00''" "''2024-03-03T09:00:00''"]
      processChartData_by_type [of "''constructor''" "(+)" "0::int" "\<lambda>x. x = 0"
        "[\<lparr>transactionType = ''SELL'', totalPrice = 10 :: int, createdAt = ''2024-03-01T09:00:00''\<rparr>,
          \<lparr>transactionType = ''SELL'', totalPrice = 20, createdAt = ''2024-03-02T09:00:00''\<rparr>,
          \<lparr>transactionType = ''PURCHASE'', totalPrice = 5, createdAt = ''2024-03-03T09:00:00''\<rparr>]"
        "[10, 20]" 10 20 30 5
        "''2024-03-01T09:00:00''" "''2024-03-02T09:00:00''" "''2024-03-03T09:00:00''"]
    by simp
qed

subsection \<open>The keys of the daily totals\<close>




















end
